theory Spec2Isabelle
  imports Complex_Main "HOL-Library.Log_Nat"
begin

section \<open>BIKE parameters (\<^verbatim>\<open>include/internal/bike_defs.h\<close>)\<close>

text \<open>
  The security level is the compile-time macro \<^verbatim>\<open>LEVEL\<close>. The header accepts the twelve
  values below and stops with \<^verbatim>\<open>#error\<close> on any other one; each level fixes the ring size
  \<^verbatim>\<open>R_BITS\<close>.
\<close>

datatype level =
    LEVEL_0
  | LEVEL_10
  | LEVEL_11
  | LEVEL_12
  | LEVEL_13
  | LEVEL_14
  | LEVEL_15
  | LEVEL_16
  | LEVEL_17
  | LEVEL_18
  | LEVEL_1
  | LEVEL_3

fun R_BITS :: "level \<Rightarrow> nat" where
  "R_BITS LEVEL_0 = 2053"
| "R_BITS LEVEL_10 = 7109"
| "R_BITS LEVEL_11 = 773"
| "R_BITS LEVEL_12 = 1019"
| "R_BITS LEVEL_13 = 1283"
| "R_BITS LEVEL_14 = 2029"
| "R_BITS LEVEL_15 = 2053"
| "R_BITS LEVEL_16 = 2069"
| "R_BITS LEVEL_17 = 4021"
| "R_BITS LEVEL_18 = 4099"
| "R_BITS LEVEL_1 = 12323"
| "R_BITS LEVEL_3 = 24659"
section \<open>Exponent chain tables (\<^verbatim>\<open>src/gf2x/gf2x_inv.c\<close>)\<close>

text \<open>Threshold for switching from repeated squaring to a single k-squaring.\<close>

definition K_SQR_THR :: nat where
  "K_SQR_THR = 64"

text \<open>
  The value of R each block of hard-coded parameters was generated for: the right-hand side
  of \<^verbatim>\<open>bike_static_assert((R_BITS == ...), gf2x_inv_r_doesnt_match_parameters)\<close>.
\<close>

fun gf2x_inv_R :: "level \<Rightarrow> nat" where
  "gf2x_inv_R LEVEL_0 = 2053"
| "gf2x_inv_R LEVEL_10 = 7109"
| "gf2x_inv_R LEVEL_11 = 773"
| "gf2x_inv_R LEVEL_12 = 1019"
| "gf2x_inv_R LEVEL_13 = 1283"
| "gf2x_inv_R LEVEL_14 = 2029"
| "gf2x_inv_R LEVEL_15 = 2053"
| "gf2x_inv_R LEVEL_16 = 2069"
| "gf2x_inv_R LEVEL_17 = 4021"
| "gf2x_inv_R LEVEL_18 = 4099"
| "gf2x_inv_R LEVEL_1 = 12323"
| "gf2x_inv_R LEVEL_3 = 24659"
fun MAX_I :: "level \<Rightarrow> nat" where
  "MAX_I LEVEL_0 = 12"
| "MAX_I LEVEL_10 = 13"
| "MAX_I LEVEL_11 = 10"
| "MAX_I LEVEL_12 = 10"
| "MAX_I LEVEL_13 = 11"
| "MAX_I LEVEL_14 = 11"
| "MAX_I LEVEL_15 = 12"
| "MAX_I LEVEL_16 = 12"
| "MAX_I LEVEL_17 = 12"
| "MAX_I LEVEL_18 = 13"
| "MAX_I LEVEL_1 = 14"
| "MAX_I LEVEL_3 = 15"
fun EXP0_K_VALS :: "level \<Rightarrow> nat list" where
  "EXP0_K_VALS LEVEL_0 = [1, 2, 4, 8, 16, 32, 64, 128, 256, 512, 1024, 2048]"
| "EXP0_K_VALS LEVEL_10 = [1, 2, 4, 8, 16, 32, 64, 128, 256, 512, 1024, 2048, 4096]"
| "EXP0_K_VALS LEVEL_11 = [1, 2, 4, 8, 16, 32, 64, 128, 256, 512]"
| "EXP0_K_VALS LEVEL_12 = [1, 2, 4, 8, 16, 32, 64, 128, 256, 512]"
| "EXP0_K_VALS LEVEL_13 = [1, 2, 4, 8, 16, 32, 64, 128, 256, 512, 1024]"
| "EXP0_K_VALS LEVEL_14 = [1, 2, 4, 8, 16, 32, 64, 128, 256, 512, 1024]"
| "EXP0_K_VALS LEVEL_15 = [1, 2, 4, 8, 16, 32, 64, 128, 256, 512, 1024, 2048]"
| "EXP0_K_VALS LEVEL_16 = [1, 2, 4, 8, 16, 32, 64, 128, 256, 512, 1024, 2048]"
| "EXP0_K_VALS LEVEL_17 = [1, 2, 4, 8, 16, 32, 64, 128, 256, 512, 1024, 2048]"
| "EXP0_K_VALS LEVEL_18 = [1, 2, 4, 8, 16, 32, 64, 128, 256, 512, 1024, 2048, 4096]"
| "EXP0_K_VALS LEVEL_1 = [1, 2, 4, 8, 16, 32, 64, 128, 256, 512, 1024, 2048, 4096, 8192]"
| "EXP0_K_VALS LEVEL_3 = [1, 2, 4, 8, 16, 32, 64, 128, 256, 512, 1024, 2048, 4096, 8192, 16384]"
fun EXP0_L_VALS :: "level \<Rightarrow> nat list" where
  "EXP0_L_VALS LEVEL_0 = [1027, 1540, 385, 409, 988, 969, 740, 1502, 1810, 1565, 2049, 16]"
| "EXP0_L_VALS LEVEL_10 = [3555, 5332, 1333, 6748, 2359, 5643, 2238, 3908, 2332, 6948, 4594, 5324, 1393]"
| "EXP0_L_VALS LEVEL_11 = [387, 580, 145, 154, 526, 715, 272, 549, 704, 123]"
| "EXP0_L_VALS LEVEL_12 = [510, 255, 828, 816, 449, 858, 446, 211, 704, 382]"
| "EXP0_L_VALS LEVEL_13 = [642, 321, 401, 426, 573, 1164, 48, 1021, 645, 333, 551]"
| "EXP0_L_VALS LEVEL_14 = [1015, 1522, 1395, 214, 1158, 1824, 1445, 184, 1392, 1998, 961]"
| "EXP0_L_VALS LEVEL_15 = [1027, 1540, 385, 409, 988, 969, 740, 1502, 1810, 1565, 2049, 16]"
| "EXP0_L_VALS LEVEL_16 = [1035, 1552, 388, 1576, 976, 836, 1643, 1473, 1417, 959, 1045, 1662]"
| "EXP0_L_VALS LEVEL_17 = [2011, 3016, 754, 1555, 1404, 926, 1003, 759, 1078, 15, 225, 2373]"
| "EXP0_L_VALS LEVEL_18 = [2050, 1025, 1281, 1361, 3672, 1973, 2778, 2966, 702, 924, 1184, 4097, 4]"
| "EXP0_L_VALS LEVEL_1 = [6162, 3081, 3851, 5632, 22, 484, 119, 1838, 1742, 3106, 10650, 1608, 10157, 8816]"
| "EXP0_L_VALS LEVEL_3 = [12330, 6165, 7706, 3564, 2711, 1139, 15053, 1258, 4388, 20524, 9538, 6393, 10486, 1715, 6804]"
fun EXP1_K_VALS :: "level \<Rightarrow> nat list" where
  "EXP1_K_VALS LEVEL_0 = [0, 1, 0, 0, 0, 0, 0, 0, 0, 0, 0, 3]"
| "EXP1_K_VALS LEVEL_10 = [0, 1, 0, 0, 0, 0, 3, 67, 195, 451, 0, 963, 3011]"
| "EXP1_K_VALS LEVEL_11 = [0, 1, 0, 0, 0, 0, 0, 0, 3, 259]"
| "EXP1_K_VALS LEVEL_12 = [0, 0, 0, 1, 9, 25, 57, 121, 249, 505]"
| "EXP1_K_VALS LEVEL_13 = [0, 0, 0, 0, 0, 0, 0, 0, 1, 0, 257]"
| "EXP1_K_VALS LEVEL_14 = [0, 1, 0, 3, 0, 11, 43, 107, 235, 491, 1003]"
| "EXP1_K_VALS LEVEL_15 = [0, 1, 0, 0, 0, 0, 0, 0, 0, 0, 0, 3]"
| "EXP1_K_VALS LEVEL_16 = [0, 1, 0, 0, 3, 0, 0, 0, 0, 0, 0, 19]"
| "EXP1_K_VALS LEVEL_17 = [0, 1, 0, 0, 3, 19, 0, 51, 179, 435, 947, 1971]"
| "EXP1_K_VALS LEVEL_18 = [0, 0, 0, 0, 0, 0, 0, 0, 0, 0, 0, 0, 1]"
| "EXP1_K_VALS LEVEL_1 = [0, 0, 0, 0, 0, 1, 0, 0, 0, 0, 0, 0, 33, 4129]"
| "EXP1_K_VALS LEVEL_3 = [0, 0, 0, 0, 1, 0, 17, 0, 0, 0, 0, 0, 0, 81, 8273]"
fun EXP1_L_VALS :: "level \<Rightarrow> nat list" where
  "EXP1_L_VALS LEVEL_0 = [0, 1027, 0, 0, 0, 0, 0, 0, 0, 0, 0, 770]"
| "EXP1_L_VALS LEVEL_10 = [0, 3555, 0, 0, 0, 0, 2666, 2057, 5586, 2864, 0, 981, 4838]"
| "EXP1_L_VALS LEVEL_11 = [0, 387, 0, 0, 0, 0, 0, 0, 290, 88]"
| "EXP1_L_VALS LEVEL_12 = [0, 0, 0, 510, 408, 791, 24, 514, 440, 1003]"
| "EXP1_L_VALS LEVEL_13 = [0, 0, 0, 0, 0, 0, 0, 0, 642, 0, 964]"
| "EXP1_L_VALS LEVEL_14 = [0, 1015, 0, 761, 0, 534, 96, 748, 1689, 1506, 2010]"
| "EXP1_L_VALS LEVEL_15 = [0, 1027, 0, 0, 0, 0, 0, 0, 0, 0, 0, 770]"
| "EXP1_L_VALS LEVEL_16 = [0, 1035, 0, 0, 776, 0, 0, 0, 0, 0, 0, 122]"
| "EXP1_L_VALS LEVEL_17 = [0, 2011, 0, 0, 1508, 2186, 0, 1673, 3192, 3021, 1084, 2640]"
| "EXP1_L_VALS LEVEL_18 = [0, 0, 0, 0, 0, 0, 0, 0, 0, 0, 0, 0, 2050]"
| "EXP1_L_VALS LEVEL_1 = [0, 0, 0, 0, 0, 6162, 0, 0, 0, 0, 0, 0, 242, 5717]"
| "EXP1_L_VALS LEVEL_3 = [0, 0, 0, 0, 12330, 0, 13685, 0, 0, 0, 0, 0, 0, 23678, 19056]"
text \<open>
  Modular exponentiation, used to check the tables: the value \<open>b ^ e mod m\<close>, with
  evaluation rules by repeated squaring along the binary digits of a literal exponent.
\<close>

definition modpow :: "nat \<Rightarrow> nat \<Rightarrow> nat \<Rightarrow> nat" where
  "modpow b e m = b ^ e mod m"

text \<open>
  The check of one table entry: \<open>l\<close> is the inverse of \<open>2 ^ k\<close> modulo \<open>R\<close>.
\<close>

definition inv_entry_ok :: "nat \<Rightarrow> nat \<Rightarrow> nat \<Rightarrow> bool" where
  "inv_entry_ok R k l \<longleftrightarrow> modpow 2 k R * l mod R = 1"

section \<open>Evaluation of modular powers\<close>

lemma modpow_0: "modpow b 0 m = 1 mod m"
  by (simp add: modpow_def)

lemma modpow_One: "modpow b 1 m = b mod m"
  by (simp add: modpow_def)

lemma modpow_Bit0:
  "modpow b (numeral (num.Bit0 n)) m = (modpow b (numeral n) m)\<^sup>2 mod m"
proof -
  have "numeral (num.Bit0 n) = 2 * (numeral n :: nat)"
    by (metis numeral_Bit0 mult_2)
  then have "b ^ numeral (num.Bit0 n) = (b ^ numeral n)\<^sup>2"
    by (simp only: power_even_eq)
  then show ?thesis
    unfolding modpow_def by (simp only: power_mod)
qed

lemma modpow_Bit1:
  "modpow b (numeral (num.Bit1 n)) m = ((modpow b (numeral n) m)\<^sup>2 * b) mod m"
proof -
  have "numeral (num.Bit1 n) = Suc (2 * (numeral n :: nat))"
    by (metis numeral_Bit1 mult_2 Suc_eq_plus1 numeral_Bit0)
  then have "b ^ numeral (num.Bit1 n) = (b ^ numeral n)\<^sup>2 * b"
    by (simp only: power_Suc2 power_even_eq)
  then show ?thesis
    unfolding modpow_def by (metis mod_mult_left_eq power_mod)
qed

lemma modpow_Suc_0: "modpow b (Suc 0) m = b mod m"
  by (simp add: modpow_def)

lemmas modpow_eval = modpow_0 modpow_One modpow_Suc_0 modpow_Bit0 modpow_Bit1

lemma table_lengths:
  "length (EXP0_K_VALS lv) = MAX_I lv" "length (EXP0_L_VALS lv) = MAX_I lv"
  "length (EXP1_K_VALS lv) = MAX_I lv" "length (EXP1_L_VALS lv) = MAX_I lv"
  by (cases lv; simp)+

lemma exp0_entries_ok:
  "list_all2 (inv_entry_ok (R_BITS lv)) (EXP0_K_VALS lv) (EXP0_L_VALS lv)"
  by (cases lv; simp add: inv_entry_ok_def modpow_eval)

lemma exp1_entries_ok:
  "list_all2 (\<lambda>k l. k \<noteq> 0 \<longrightarrow> inv_entry_ok (R_BITS lv) k l)
     (EXP1_K_VALS lv) (EXP1_L_VALS lv)"
  by (cases lv; simp add: inv_entry_ok_def modpow_eval)

lemma exp0_inverse:
  "i < MAX_I lv \<Longrightarrow> inv_entry_ok (R_BITS lv) (EXP0_K_VALS lv ! i) (EXP0_L_VALS lv ! i)"
  using exp0_entries_ok [of lv] by (simp add: list_all2_conv_all_nth table_lengths)

lemma exp1_inverse:
  "i < MAX_I lv \<Longrightarrow> EXP1_K_VALS lv ! i \<noteq> 0 \<Longrightarrow>
     inv_entry_ok (R_BITS lv) (EXP1_K_VALS lv ! i) (EXP1_L_VALS lv ! i)"
  using exp1_entries_ok [of lv] by (simp add: list_all2_conv_all_nth table_lengths)

section \<open>The tables against their derivation\<close>

lemma floor_log2_eq:
  assumes "0 < n" and "2 ^ (n - 1) \<le> x" and "x < 2 ^ n"
  shows "n = nat \<lfloor>log 2 (real x)\<rfloor> + 1"
proof -
  have pos: "0 < x"
    using assms(2) by (cases "x = 0") simp_all
  have "floorlog 2 x \<le> n"
    using assms(3) by (simp add: floorlog_le_iff)
  moreover have "Suc (n - 1) \<le> floorlog 2 x"
    using assms(2) by (intro floorlog_ge_SucI) simp_all
  ultimately have "floorlog 2 x = n"
    using assms(1) by simp
  then show ?thesis
    using pos by (simp add: floorlog_def)
qed

lemma max_i_derived: "MAX_I lv = nat \<lfloor>log 2 (real (R_BITS lv - 2))\<rfloor> + 1"
  by (cases lv; rule floor_log2_eq; simp)

lemma exp0_k_derived: "EXP0_K_VALS lv = map (\<lambda>i. 2 ^ i) [0..<MAX_I lv]"
  by (cases lv; simp add: upt_rec)

lemma exp1_k_derived:
  "EXP1_K_VALS lv =
     map (\<lambda>i. if bit (R_BITS lv - 2) i then (R_BITS lv - 2) mod 2 ^ i else 0) [0..<MAX_I lv]"
  by (cases lv; simp add: upt_rec bit_iff_odd)

section \<open>Claims\<close>

text \<open>
  C4. For every level and every index \<open>i\<close> of its tables, the entry \<open>exp0_l[i]\<close> is the
  inverse of \<open>2 ^ exp0_k[i]\<close> modulo R, and so is \<open>exp1_l[i]\<close> of \<open>2 ^ exp1_k[i]\<close>
  whenever \<open>exp1_k[i]\<close> is not zero: \<open>(2 ^ k mod R) * l mod R = 1\<close>. For R = 773 the first
  entry is 387, and \<open>2 * 387 mod 773 = 1\<close>.
\<close>

theorem table_inverse_congruence:
  "(\<forall>i<MAX_I lv.
      (2 ^ (EXP0_K_VALS lv ! i) mod R_BITS lv) * (EXP0_L_VALS lv ! i) mod R_BITS lv = 1 \<and>
      (EXP1_K_VALS lv ! i \<noteq> 0 \<longrightarrow>
        (2 ^ (EXP1_K_VALS lv ! i) mod R_BITS lv) * (EXP1_L_VALS lv ! i) mod R_BITS lv = 1)) \<and>
   R_BITS LEVEL_11 = 773 \<and> EXP0_K_VALS LEVEL_11 ! 0 = 1 \<and> EXP0_L_VALS LEVEL_11 ! 0 = 387 \<and>
   (2 * 387 mod 773 = (1::nat))"
  using exp0_inverse [of _ lv] exp1_inverse [of _ lv]
  by (simp add: inv_entry_ok_def modpow_def)

theorem table_inverse_congruence_witness:
  "9 < MAX_I LEVEL_11 \<and> EXP1_K_VALS LEVEL_11 ! 9 \<noteq> 0 \<and>
   (2 ^ 512 mod 773) * 123 mod 773 = (1::nat) \<and> (2 ^ 259 mod 773) * 88 mod 773 = (1::nat)"
proof -
  have lt: "9 < MAX_I LEVEL_11" and nz: "EXP1_K_VALS LEVEL_11 ! 9 \<noteq> 0"
    by simp_all
  from table_inverse_congruence [of LEVEL_11] lt nz
  have "(2 ^ (EXP0_K_VALS LEVEL_11 ! 9) mod R_BITS LEVEL_11) * (EXP0_L_VALS LEVEL_11 ! 9)
          mod R_BITS LEVEL_11 = 1"
    and "(2 ^ (EXP1_K_VALS LEVEL_11 ! 9) mod R_BITS LEVEL_11) * (EXP1_L_VALS LEVEL_11 ! 9)
          mod R_BITS LEVEL_11 = 1"
    by blast+
  then have "(2 ^ 512 mod 773) * 123 mod 773 = (1::nat)"
    and "(2 ^ 259 mod 773) * 88 mod 773 = (1::nat)"
    by (simp_all del: power_numeral)
  with lt nz show ?thesis
    by blast
qed

text \<open>
  C5. For every level the hard-coded chain parameters are the ones the derivation gives for
  the level's R: \<open>MAX_I = floor (log2 (R - 2)) + 1\<close>, \<open>exp0_k[i] = 2 ^ i\<close> for every
  \<open>i < MAX_I\<close>, and \<open>exp1_k[i] = (R - 2) mod 2 ^ i\<close> where bit \<open>i\<close> of \<open>R - 2\<close> is set and
  \<open>0\<close> elsewhere (also at \<open>i = 0\<close>, where the remainder is 0). The ring sizes are the eleven
  values 773, 1019, 1283, 2029, 2053, 2069, 4021, 4099, 7109, 12323 and 24659.
\<close>

theorem chain_parameters_derived:
  "MAX_I lv = nat \<lfloor>log 2 (real (R_BITS lv - 2))\<rfloor> + 1 \<and>
   EXP0_K_VALS lv = map (\<lambda>i. 2 ^ i) [0..<MAX_I lv] \<and>
   EXP1_K_VALS lv =
     map (\<lambda>i. if bit (R_BITS lv - 2) i then (R_BITS lv - 2) mod 2 ^ i else 0) [0..<MAX_I lv] \<and>
   gf2x_inv_R lv = R_BITS lv \<and>
   range R_BITS = {773, 1019, 1283, 2029, 2053, 2069, 4021, 4099, 7109, 12323, 24659}"
proof -
  have "range R_BITS = R_BITS ` {LEVEL_0, LEVEL_10, LEVEL_11, LEVEL_12, LEVEL_13, LEVEL_14,
      LEVEL_15, LEVEL_16, LEVEL_17, LEVEL_18, LEVEL_1, LEVEL_3}"
    by (rule arg_cong [where f = "image R_BITS"]) (auto intro: level.exhaust)
  then have "range R_BITS = {773, 1019, 1283, 2029, 2053, 2069, 4021, 4099, 7109, 12323, 24659}"
    by auto
  moreover have "gf2x_inv_R lv = R_BITS lv"
    by (cases lv; simp)
  ultimately show ?thesis
    using max_i_derived [of lv] exp0_k_derived [of lv] exp1_k_derived [of lv] by blast
qed

end
